theory Spec2Isabelle
  imports Complex_Main "HOL-Library.Sublist" "HOL-Library.AList"
begin

section \<open>PDF outline extraction: text primitives\<close>

text \<open>
  The program exists in two copies: the batch script \<^verbatim>\<open>process_pdfs.py\<close> and the web
  view \<^verbatim>\<open>extractor/views.py\<close>. Definitions translated from the batch script carry the
  source's names; definitions translated from the web view carry the suffix \<open>_views\<close>.

  Python strings are modelled as \<^typ>\<open>string\<close> over the ASCII alphabet. On ASCII text the
  Unicode-aware predicates of Python (\<^verbatim>\<open>str.isspace\<close>, \<^verbatim>\<open>str.isupper\<close>, \<^verbatim>\<open>\d\<close>, \<^verbatim>\<open>\s\<close>, ...)
  are the ones below; a character of code 128 and above counts as an uncased symbol.
\<close>

definition is_space :: "char \<Rightarrow> bool" where
  \<comment> \<open>\<^verbatim>\<open>str.isspace\<close> and the regular-expression class \<^verbatim>\<open>\s\<close>: TAB, LF, VT, FF, CR,
      the separators FS, GS, RS, US, and the blank.\<close>
  "is_space c = (let n = (of_char c :: nat) in (9 \<le> n \<and> n \<le> 13) \<or> (28 \<le> n \<and> n \<le> 32))"

definition is_digit :: "char \<Rightarrow> bool" where
  "is_digit c = (let n = (of_char c :: nat) in 48 \<le> n \<and> n \<le> 57)"

definition is_upper :: "char \<Rightarrow> bool" where
  "is_upper c = (let n = (of_char c :: nat) in 65 \<le> n \<and> n \<le> 90)"

definition is_lower :: "char \<Rightarrow> bool" where
  "is_lower c = (let n = (of_char c :: nat) in 97 \<le> n \<and> n \<le> 122)"

definition to_lower :: "char \<Rightarrow> char" where
  "to_lower c = (if is_upper c then char_of (of_char c + (32 :: nat)) else c)"

definition strip :: "string \<Rightarrow> string" where
  \<comment> \<open>\<^verbatim>\<open>line.strip()\<close>\<close>
  "strip s = rev (dropWhile is_space (rev (dropWhile is_space s)))"

fun split_lines :: "string \<Rightarrow> string list" where
  \<comment> \<open>\<^verbatim>\<open>text.split('\n')\<close>; the result is never empty, so the second case branch is dead\<close>
  "split_lines [] = [[]]"
| "split_lines (c # cs) =
     (if c = CHR 0x0A then [] # split_lines cs
      else (case split_lines cs of l # ls \<Rightarrow> (c # l) # ls | [] \<Rightarrow> [[c]]))"

definition isupper :: "string \<Rightarrow> bool" where
  \<comment> \<open>\<^verbatim>\<open>str.isupper\<close>: no lower-case character and at least one cased character\<close>
  "isupper s = (list_ex is_upper s \<and> list_all (\<lambda>c. \<not> is_lower c) s)"

fun istitle_from :: "bool \<Rightarrow> bool \<Rightarrow> string \<Rightarrow> bool" where
  \<comment> \<open>the scan of \<^verbatim>\<open>str.istitle\<close>: the flags are "previous character is cased" and
      "a cased character was seen"\<close>
  "istitle_from prev cased [] = cased"
| "istitle_from prev cased (c # cs) =
     (if is_upper c then (if prev then False else istitle_from True True cs)
      else if is_lower c then (if prev then istitle_from True True cs else False)
      else istitle_from False cased cs)"

definition istitle :: "string \<Rightarrow> bool" where
  "istitle s = istitle_from False False s"

definition isdigit :: "string \<Rightarrow> bool" where
  \<comment> \<open>\<^verbatim>\<open>str.isdigit\<close>\<close>
  "isdigit s = (s \<noteq> [] \<and> list_all is_digit s)"

definition lower :: "string \<Rightarrow> string" where
  "lower s = map to_lower s"

fun starts_with :: "string \<Rightarrow> string \<Rightarrow> bool" where
  "starts_with [] s = True"
| "starts_with (p # ps) [] = False"
| "starts_with (p # ps) (c # cs) = (p = c \<and> starts_with ps cs)"

fun contains :: "string \<Rightarrow> string \<Rightarrow> bool" where
  \<comment> \<open>\<^verbatim>\<open>word in s\<close> for strings: \<open>contains word s\<close>\<close>
  "contains w [] = (w = [])"
| "contains w (c # cs) = (starts_with w (c # cs) \<or> contains w cs)"

subsection \<open>Regular expressions\<close>

text \<open>
  The patterns of the program use character classes, one-or-more repetition of a class,
  sequence, alternative and the end anchor. \<open>rests r s\<close> lists what remains of \<open>s\<close> after
  each way of matching \<open>r\<close> at its start, the longest repetition first, as the
  backtracking matcher tries them; \<^verbatim>\<open>re.match\<close> succeeds when there is such a way.
\<close>

datatype rx =
    Cls "char \<Rightarrow> bool"
  | Plus "char \<Rightarrow> bool"
  | Seq rx rx
  | Alt rx rx
  | Dollar

fun rests :: "rx \<Rightarrow> string \<Rightarrow> string list" where
  "rests (Cls P) [] = []"
| "rests (Cls P) (c # cs) = (if P c then [cs] else [])"
| "rests (Plus P) [] = []"
| "rests (Plus P) (c # cs) = (if P c then rests (Plus P) cs @ [cs] else [])"
| "rests (Seq a b) s = concat (map (rests b) (rests a s))"
| "rests (Alt a b) s = rests a s @ rests b s"
| "rests Dollar s = (if s = [] \<or> s = [CHR 0x0A] then [s] else [])"

definition re_match :: "rx \<Rightarrow> string \<Rightarrow> bool" where
  "re_match r s = (rests r s \<noteq> [])"

definition lit :: "char \<Rightarrow> rx" where
  "lit c = Cls (\<lambda>x. x = c)"

definition lit_i :: "char \<Rightarrow> rx" where
  \<comment> \<open>a literal under \<^verbatim>\<open>re.IGNORECASE\<close>\<close>
  "lit_i c = Cls (\<lambda>x. to_lower x = to_lower c)"

fun word_i :: "string \<Rightarrow> rx \<Rightarrow> rx" where
  \<comment> \<open>a literal word under \<^verbatim>\<open>re.IGNORECASE\<close>, followed by \<open>r\<close>\<close>
  "word_i [] r = r"
| "word_i (c # cs) r = Seq (lit_i c) (word_i cs r)"

definition rx_num1 :: rx where
  \<comment> \<open>\<^verbatim>\<open>^\d+\.\s+[A-Z]\<close>\<close>
  "rx_num1 = Seq (Plus is_digit) (Seq (lit CHR ''.'') (Seq (Plus is_space) (Cls is_upper)))"

definition rx_num2 :: rx where
  \<comment> \<open>\<^verbatim>\<open>^\d+\.\d+\s+[A-Z]\<close>\<close>
  "rx_num2 = Seq (Plus is_digit) (Seq (lit CHR ''.'') (Seq (Plus is_digit)
               (Seq (Plus is_space) (Cls is_upper))))"

definition rx_num3 :: rx where
  \<comment> \<open>\<^verbatim>\<open>^\d+\.\d+\.\d+\s+[A-Z]\<close>\<close>
  "rx_num3 = Seq (Plus is_digit) (Seq (lit CHR ''.'') (Seq (Plus is_digit)
               (Seq (lit CHR ''.'') (Seq (Plus is_digit) (Seq (Plus is_space) (Cls is_upper))))))"

definition rx_chapter :: rx where
  \<comment> \<open>\<^verbatim>\<open>^(Chapter|Section|Part)\s+\d+\<close> with \<^verbatim>\<open>re.IGNORECASE\<close>\<close>
  "rx_chapter =
     (let tail = Seq (Plus is_space) (Plus is_digit)
      in Alt (word_i ''Chapter'' tail) (Alt (word_i ''Section'' tail) (word_i ''Part'' tail)))"

definition rx_roman :: rx where
  \<comment> \<open>\<^verbatim>\<open>^[IVX]+\.\s+[A-Z]\<close>\<close>
  "rx_roman = Seq (Plus (\<lambda>c. c = CHR ''I'' \<or> c = CHR ''V'' \<or> c = CHR ''X''))
                (Seq (lit CHR ''.'') (Seq (Plus is_space) (Cls is_upper)))"

definition rx_alpha :: rx where
  \<comment> \<open>\<^verbatim>\<open>^[A-Z]\.\s+[A-Z]\<close>\<close>
  "rx_alpha = Seq (Cls is_upper) (Seq (lit CHR ''.'') (Seq (Plus is_space) (Cls is_upper)))"

definition rx_allcaps :: rx where
  \<comment> \<open>\<^verbatim>\<open>^[A-Z][A-Z\s]+[A-Z]$\<close>\<close>
  "rx_allcaps = Seq (Cls is_upper) (Seq (Plus (\<lambda>c. is_upper c \<or> is_space c))
                  (Seq (Cls is_upper) Dollar))"

definition rx_digits :: rx where
  \<comment> \<open>\<^verbatim>\<open>^\d+$\<close>\<close>
  "rx_digits = Seq (Plus is_digit) Dollar"

section \<open>The heading classifier of the batch script\<close>

datatype level = H1 | H2 | H3

definition any_word_in :: "string list \<Rightarrow> string \<Rightarrow> bool" where
  \<comment> \<open>\<^verbatim>\<open>any(word in s for word in words)\<close>\<close>
  "any_word_in ws s = list_ex (\<lambda>w. contains w s) ws"

definition detect_heading_level :: "string \<Rightarrow> rat list \<Rightarrow> level option" where
  "detect_heading_level line sorted_sizes =
     (if re_match rx_num1 line then Some H1
      else if re_match rx_num2 line then Some H2
      else if re_match rx_num3 line then Some H3
      else if re_match rx_chapter line then Some H1
      else if isupper line \<and> 4 \<le> length line \<and> length line \<le> 100 then Some H1
      else if istitle line \<and> 5 \<le> length line \<and> length line \<le> 100 then
        (if any_word_in [''introduction'', ''conclusion'', ''overview'', ''summary'', ''abstract'']
              (lower line) then Some H1
         else if any_word_in [''method'', ''result'', ''discussion'', ''analysis''] (lower line)
           then Some H2
         else Some H2)
      else if re_match rx_roman line then Some H1
      else if re_match rx_alpha line then Some H2
      else None)"

section \<open>Documents, pages and backends\<close>

text \<open>
  A heading entry is the dictionary \<^verbatim>\<open>{"level": ..., "text": ..., "page": ...}\<close>. The result
  of an extraction is a dictionary too; it is kept as a map from keys to values, so that
  the presence of a key can be stated.
\<close>

record heading =
  hlevel :: level
  htext :: string
  hpage :: int

datatype jvalue = Str string | Headings "heading list"

type_synonym document = "string \<rightharpoonup> jvalue"

datatype exn = Exception string

text \<open>
  A glyph record of the rich backend is a dictionary, of which the program reads the key
  \<^verbatim>\<open>size\<close> only. A page of the rich backend answers \<^verbatim>\<open>extract_text()\<close> and \<^verbatim>\<open>chars\<close>, each
  with a value or an exception; an empty text stands for both \<^verbatim>\<open>""\<close> and \<^verbatim>\<open>None\<close>, which
  the program does not tell apart. A page answers the same way each time it is asked.
\<close>

type_synonym glyph = "string \<rightharpoonup> rat"

record rich_page =
  extract_text :: "exn + string"
  chars :: "exn + glyph list"

text \<open>
  The plain backend gives the document information (absent, or a dictionary with an
  optional \<^verbatim>\<open>/Title\<close>) and, for each page, the answer of \<^verbatim>\<open>extract_text()\<close>.

  \<open>pdfplumber_open\<close> stands for \<^verbatim>\<open>pdfplumber.open(pdf_path)\<close> together with the reading of
  \<^verbatim>\<open>pdf.pages\<close>, and \<open>PdfReader\<close> for \<^verbatim>\<open>open(pdf_path, 'rb')\<close>, \<^verbatim>\<open>PdfReader(file)\<close> and the
  reading of \<^verbatim>\<open>metadata\<close> and \<^verbatim>\<open>pages\<close>: each either gives its value or raises, inside the
  \<^verbatim>\<open>try\<close> block of its caller. An exception is an \<^verbatim>\<open>Exception\<close> of Python, which is what the
  handlers of the program catch; what the handlers print is left out.
\<close>

record plain_pdf =
  metadata :: "(string \<rightharpoonup> string) option"
  pages :: "(exn + string) list"

record backends =
  pdfplumber_open :: "string \<Rightarrow> exn + rich_page list"
  PdfReader :: "string \<Rightarrow> exn + plain_pdf"

definition mk_outline :: "string \<Rightarrow> heading list \<Rightarrow> document" where
  \<comment> \<open>the dictionary \<^verbatim>\<open>outline\<close> when it is returned\<close>
  "mk_outline t hs = [''title'' \<mapsto> Str t, ''outline'' \<mapsto> Headings hs]"

subsection \<open>The loops\<close>

text \<open>
  Every loop over the lines of a page has the shape
  \<^verbatim>\<open>for line in lines: line = line.strip(); if <skip>: continue; <classify and append>\<close>.
\<close>

fun scan_lines ::
  "(string \<Rightarrow> bool) \<Rightarrow> (string \<Rightarrow> level option) \<Rightarrow> int \<Rightarrow> string list \<Rightarrow> heading list
     \<Rightarrow> heading list" where
  "scan_lines skip classify page_num [] headings = headings"
| "scan_lines skip classify page_num (l # ls) headings =
     (let line = strip l in
      if skip line then scan_lines skip classify page_num ls headings
      else (case classify line of
              None \<Rightarrow> scan_lines skip classify page_num ls headings
            | Some lv \<Rightarrow> scan_lines skip classify page_num ls
                (headings @ [\<lparr>hlevel = lv, htext = line, hpage = page_num\<rparr>])))"

fun pages_loop ::
  "('p \<Rightarrow> int \<Rightarrow> exn + heading list) \<Rightarrow> int \<Rightarrow> 'p list \<Rightarrow> heading list
     \<Rightarrow> exn + heading list" where
  \<comment> \<open>\<^verbatim>\<open>for page_num, page in enumerate(pages, 1): outline["outline"].extend(f(page, page_num))\<close>\<close>
  "pages_loop f page_num [] out = Inr out"
| "pages_loop f page_num (p # ps) out =
     (case f p page_num of
        Inl e \<Rightarrow> Inl e
      | Inr headings \<Rightarrow> pages_loop f (page_num + 1) ps (out @ headings))"

fun font_sizes_loop :: "glyph list \<Rightarrow> (rat \<times> nat) list \<Rightarrow> (rat \<times> nat) list" where
  \<comment> \<open>\<^verbatim>\<open>for char in chars: if 'size' in char: font_sizes[size] = font_sizes.get(size, 0) + 1\<close>\<close>
  "font_sizes_loop [] font_sizes = font_sizes"
| "font_sizes_loop (ch # cs) font_sizes =
     (case ch ''size'' of
        None \<Rightarrow> font_sizes_loop cs font_sizes
      | Some sz \<Rightarrow> font_sizes_loop cs
          (AList.update sz ((case map_of font_sizes sz of None \<Rightarrow> 0 | Some k \<Rightarrow> k) + 1)
             font_sizes))"

definition sorted_desc :: "(rat \<times> nat) list \<Rightarrow> rat list" where
  \<comment> \<open>\<^verbatim>\<open>sorted(font_sizes.keys(), reverse=True)\<close>\<close>
  "sorted_desc font_sizes = rev (sort (map fst font_sizes))"

section \<open>The batch script\<close>

fun title_scan :: "string list \<Rightarrow> string" where
  \<comment> \<open>the loop of \<^verbatim>\<open>extract_title_from_page\<close>, and the \<^verbatim>\<open>return ""\<close> after it\<close>
  "title_scan [] = []"
| "title_scan (l # ls) =
     (let line = strip l in
      if line \<noteq> [] \<and> 3 < length line \<and> \<not> isdigit line then
        (if \<not> re_match rx_digits line then line else title_scan ls)
      else title_scan ls)"

definition extract_title_from_page :: "rich_page \<Rightarrow> string" where
  "extract_title_from_page p =
     (case extract_text p of
        Inl e \<Rightarrow> []
      | Inr txt \<Rightarrow> if txt = [] then [] else title_scan (split_lines txt))"

definition fallback_level :: "string \<Rightarrow> level option" where
  \<comment> \<open>the \<^verbatim>\<open>if/elif\<close> chain of \<^verbatim>\<open>extract_headings_fallback\<close> and \<^verbatim>\<open>extract_headings_from_text\<close>\<close>
  "fallback_level line =
     (if re_match rx_allcaps line \<and> 4 \<le> length line \<and> length line \<le> 100 then Some H1
      else if re_match rx_num1 line then Some H1
      else if re_match rx_num2 line then Some H2
      else if re_match rx_num3 line then Some H3
      else None)"

definition short_line :: "string \<Rightarrow> bool" where
  \<comment> \<open>\<^verbatim>\<open>not line or len(line) < 3\<close>\<close>
  "short_line line = (line = [] \<or> length line < 3)"

definition extract_headings_fallback :: "rich_page \<Rightarrow> int \<Rightarrow> heading list" where
  "extract_headings_fallback p page_num =
     (case extract_text p of
        Inl e \<Rightarrow> []
      | Inr txt \<Rightarrow> if txt = [] then []
                 else scan_lines short_line fallback_level page_num (split_lines txt) [])"

definition extract_headings_from_page :: "rich_page \<Rightarrow> int \<Rightarrow> heading list" where
  \<comment> \<open>when the \<^verbatim>\<open>try\<close> block raises, \<^verbatim>\<open>headings\<close> is still empty\<close>
  "extract_headings_from_page p page_num =
     (case extract_text p of
        Inl e \<Rightarrow> [] @ extract_headings_fallback p page_num
      | Inr txt \<Rightarrow>
          if txt = [] then []
          else (case chars p of
                  Inl e \<Rightarrow> [] @ extract_headings_fallback p page_num
                | Inr cs \<Rightarrow>
                    (let font_sizes = font_sizes_loop cs [];
                         sorted_sizes = sorted_desc font_sizes
                     in scan_lines short_line (\<lambda>line. detect_heading_level line sorted_sizes)
                          page_num (split_lines txt) [])))"

definition extract_headings_from_text :: "string \<Rightarrow> int \<Rightarrow> heading list" where
  "extract_headings_from_text txt page_num =
     scan_lines short_line fallback_level page_num (split_lines txt) []"

fun title_scan_plain :: "string list \<Rightarrow> string" where
  \<comment> \<open>the title loop of \<^verbatim>\<open>extract_with_pypdf2\<close>; the title stays \<^verbatim>\<open>""\<close> without a \<^verbatim>\<open>break\<close>\<close>
  "title_scan_plain [] = []"
| "title_scan_plain (l # ls) =
     (let line = strip l in
      if line \<noteq> [] \<and> 3 < length line \<and> \<not> isdigit line then line else title_scan_plain ls)"

definition plain_title :: "plain_pdf \<Rightarrow> exn + string" where
  \<comment> \<open>the title of \<^verbatim>\<open>extract_with_pypdf2\<close>: the metadata's, or the first page's\<close>
  "plain_title rd =
     (case (case metadata rd of None \<Rightarrow> None | Some md \<Rightarrow> md ''/Title'') of
        Some t \<Rightarrow> Inr t
      | None \<Rightarrow>
          (case pages rd of
             [] \<Rightarrow> Inr []
           | first_page # _ \<Rightarrow>
               (case first_page of
                  Inl e \<Rightarrow> Inl e
                | Inr first_page_text \<Rightarrow>
                    Inr (if first_page_text \<noteq> [] then title_scan_plain (split_lines first_page_text)
                         else []))))"

definition plain_page_headings :: "exn + string \<Rightarrow> int \<Rightarrow> exn + heading list" where
  \<comment> \<open>the body of the page loop of \<^verbatim>\<open>extract_with_pypdf2\<close>\<close>
  "plain_page_headings pg page_num =
     (case pg of
        Inl e \<Rightarrow> Inl e
      | Inr txt \<Rightarrow> Inr (if txt \<noteq> [] then extract_headings_from_text txt page_num else []))"

definition extract_with_pypdf2_try :: "backends \<Rightarrow> string \<Rightarrow> exn + document" where
  \<comment> \<open>the \<^verbatim>\<open>try\<close> block of \<^verbatim>\<open>extract_with_pypdf2\<close>\<close>
  "extract_with_pypdf2_try B pdf_path =
     (case PdfReader B pdf_path of
        Inl e \<Rightarrow> Inl e
      | Inr pdf_reader \<Rightarrow>
          (case plain_title pdf_reader of
             Inl e \<Rightarrow> Inl e
           | Inr t \<Rightarrow>
               (case pages_loop plain_page_headings 1 (pages pdf_reader) [] of
                  Inl e \<Rightarrow> Inl e
                | Inr out \<Rightarrow> Inr (mk_outline t out))))"

definition extract_with_pypdf2 :: "backends \<Rightarrow> string \<Rightarrow> exn + document" where
  "extract_with_pypdf2 B pdf_path =
     (case extract_with_pypdf2_try B pdf_path of
        Inr d \<Rightarrow> Inr d
      | Inl e \<Rightarrow> Inr [''title'' \<mapsto> Str ''Error extracting title'', ''outline'' \<mapsto> Headings []])"

definition extract_pdf_outline_try :: "backends \<Rightarrow> string \<Rightarrow> exn + document" where
  \<comment> \<open>the \<^verbatim>\<open>try\<close> block of \<^verbatim>\<open>extract_pdf_outline\<close>\<close>
  "extract_pdf_outline_try B pdf_path =
     (case pdfplumber_open B pdf_path of
        Inl e \<Rightarrow> Inl e
      | Inr pdf_pages \<Rightarrow>
          (let t = (case pdf_pages of [] \<Rightarrow> [] | first_page # _ \<Rightarrow> extract_title_from_page first_page)
           in case pages_loop (\<lambda>p n. Inr (extract_headings_from_page p n)) 1 pdf_pages [] of
                Inl e \<Rightarrow> Inl e
              | Inr out \<Rightarrow> Inr (mk_outline t out)))"

definition extract_pdf_outline :: "backends \<Rightarrow> string \<Rightarrow> exn + document" where
  "extract_pdf_outline B pdf_path =
     (case extract_pdf_outline_try B pdf_path of
        Inr d \<Rightarrow> Inr d
      | Inl e \<Rightarrow> extract_with_pypdf2 B pdf_path)"

section \<open>The web view\<close>

definition rx_num1_views :: rx where
  \<comment> \<open>\<^verbatim>\<open>^\d+\.\s+\<close>\<close>
  "rx_num1_views = Seq (Plus is_digit) (Seq (lit CHR ''.'') (Plus is_space))"

definition rx_num2_views :: rx where
  \<comment> \<open>\<^verbatim>\<open>^\d+\.\d+\s+\<close>\<close>
  "rx_num2_views = Seq (Plus is_digit) (Seq (lit CHR ''.'') (Seq (Plus is_digit) (Plus is_space)))"

definition rx_num3_views :: rx where
  \<comment> \<open>\<^verbatim>\<open>^\d+\.\d+\.\d+\s+\<close>\<close>
  "rx_num3_views = Seq (Plus is_digit) (Seq (lit CHR ''.'') (Seq (Plus is_digit)
                     (Seq (lit CHR ''.'') (Seq (Plus is_digit) (Plus is_space)))))"

definition detect_heading_level_views :: "string \<Rightarrow> glyph list \<Rightarrow> rat list \<Rightarrow> level option" where
  \<comment> \<open>the last test is the \<^verbatim>\<open>pass\<close> of the font size analysis, before \<^verbatim>\<open>return None\<close>\<close>
  "detect_heading_level_views line chs sorted_sizes =
     (if re_match rx_num1_views line then Some H1
      else if re_match rx_num2_views line then Some H2
      else if re_match rx_num3_views line then Some H3
      else if isupper line \<and> 3 < length line then Some H1
      else if istitle line \<and> 10 \<le> length line \<and> length line \<le> 100 then Some H2
      else if any_word_in [''chapter'', ''section'', ''introduction'', ''conclusion'', ''overview'',
                ''summary''] (lower line) then Some H2
      else if sorted_sizes \<noteq> [] \<and> 2 < length sorted_sizes then None
      else None)"

fun title_scan_views :: "string list \<Rightarrow> string" where
  \<comment> \<open>the title loops of the web view, in \<^verbatim>\<open>extract_title_from_page\<close> and \<^verbatim>\<open>extract_with_pypdf2\<close>\<close>
  "title_scan_views [] = []"
| "title_scan_views (l # ls) =
     (let line = strip l in
      if line \<noteq> [] \<and> 3 < length line then line else title_scan_views ls)"

definition extract_title_from_page_views :: "rich_page \<Rightarrow> exn + string" where
  "extract_title_from_page_views p =
     (case extract_text p of
        Inl e \<Rightarrow> Inl e
      | Inr txt \<Rightarrow> Inr (if txt = [] then [] else title_scan_views (split_lines txt)))"

definition fallback_level_views :: "string \<Rightarrow> level option" where
  \<comment> \<open>the \<^verbatim>\<open>if/elif\<close> chain of \<^verbatim>\<open>extract_headings_fallback\<close> and \<^verbatim>\<open>extract_headings_from_text\<close>\<close>
  "fallback_level_views line =
     (if re_match rx_allcaps line \<and> 3 < length line then Some H1
      else if re_match rx_num1 line then Some H1
      else if re_match rx_num2 line then Some H2
      else if re_match rx_num3 line then Some H3
      else None)"

definition empty_line :: "string \<Rightarrow> bool" where
  \<comment> \<open>\<^verbatim>\<open>not line\<close>\<close>
  "empty_line line = (line = [])"

definition extract_headings_fallback_views :: "rich_page \<Rightarrow> int \<Rightarrow> exn + heading list" where
  "extract_headings_fallback_views p page_num =
     (case extract_text p of
        Inl e \<Rightarrow> Inl e
      | Inr txt \<Rightarrow> Inr (if txt = [] then []
                      else scan_lines empty_line fallback_level_views page_num (split_lines txt) []))"

definition extract_headings_from_page_views :: "rich_page \<Rightarrow> int \<Rightarrow> exn + heading list" where
  \<comment> \<open>the handler calls the fallback, which is not guarded: its exception leaves the function\<close>
  "extract_headings_from_page_views p page_num =
     (case extract_text p of
        Inl e \<Rightarrow> extract_headings_fallback_views p page_num
      | Inr txt \<Rightarrow>
          if txt = [] then Inr []
          else (case chars p of
                  Inl e \<Rightarrow> extract_headings_fallback_views p page_num
                | Inr cs \<Rightarrow>
                    (let font_sizes = font_sizes_loop cs [];
                         sorted_sizes = sorted_desc font_sizes
                     in Inr (scan_lines empty_line
                               (\<lambda>line. detect_heading_level_views line cs sorted_sizes)
                               page_num (split_lines txt) []))))"

definition extract_headings_from_text_views :: "string \<Rightarrow> int \<Rightarrow> heading list" where
  "extract_headings_from_text_views txt page_num =
     scan_lines empty_line fallback_level_views page_num (split_lines txt) []"

definition plain_title_views :: "plain_pdf \<Rightarrow> exn + string" where
  "plain_title_views rd =
     (case (case metadata rd of None \<Rightarrow> None | Some md \<Rightarrow> md ''/Title'') of
        Some t \<Rightarrow> Inr t
      | None \<Rightarrow>
          (case pages rd of
             [] \<Rightarrow> Inr []
           | first_page # _ \<Rightarrow>
               (case first_page of
                  Inl e \<Rightarrow> Inl e
                | Inr first_page_text \<Rightarrow>
                    Inr (if first_page_text \<noteq> [] then title_scan_views (split_lines first_page_text)
                         else []))))"

definition plain_page_headings_views :: "exn + string \<Rightarrow> int \<Rightarrow> exn + heading list" where
  "plain_page_headings_views pg page_num =
     (case pg of
        Inl e \<Rightarrow> Inl e
      | Inr txt \<Rightarrow> Inr (if txt \<noteq> [] then extract_headings_from_text_views txt page_num else []))"

definition extract_with_pypdf2_try_views :: "backends \<Rightarrow> string \<Rightarrow> exn + document" where
  "extract_with_pypdf2_try_views B pdf_path =
     (case PdfReader B pdf_path of
        Inl e \<Rightarrow> Inl e
      | Inr pdf_reader \<Rightarrow>
          (case plain_title_views pdf_reader of
             Inl e \<Rightarrow> Inl e
           | Inr t \<Rightarrow>
               (case pages_loop plain_page_headings_views 1 (pages pdf_reader) [] of
                  Inl e \<Rightarrow> Inl e
                | Inr out \<Rightarrow> Inr (mk_outline t out))))"

definition extract_with_pypdf2_views :: "backends \<Rightarrow> string \<Rightarrow> exn + document" where
  "extract_with_pypdf2_views B pdf_path =
     (case extract_with_pypdf2_try_views B pdf_path of
        Inr d \<Rightarrow> Inr d
      | Inl e \<Rightarrow> Inr [''title'' \<mapsto> Str ''Error extracting title'', ''outline'' \<mapsto> Headings []])"

definition extract_pdf_outline_try_views :: "backends \<Rightarrow> string \<Rightarrow> exn + document" where
  "extract_pdf_outline_try_views B pdf_path =
     (case pdfplumber_open B pdf_path of
        Inl e \<Rightarrow> Inl e
      | Inr pdf_pages \<Rightarrow>
          (case (case pdf_pages of [] \<Rightarrow> Inr []
                 | first_page # _ \<Rightarrow> extract_title_from_page_views first_page) of
             Inl e \<Rightarrow> Inl e
           | Inr t \<Rightarrow>
               (case pages_loop extract_headings_from_page_views 1 pdf_pages [] of
                  Inl e \<Rightarrow> Inl e
                | Inr out \<Rightarrow> Inr (mk_outline t out))))"

definition extract_pdf_outline_views :: "backends \<Rightarrow> string \<Rightarrow> exn + document" where
  "extract_pdf_outline_views B pdf_path =
     (case extract_pdf_outline_try_views B pdf_path of
        Inr d \<Rightarrow> Inr d
      | Inl e \<Rightarrow> extract_with_pypdf2_views B pdf_path)"

section \<open>Reading a document\<close>

definition outline_of :: "document \<Rightarrow> heading list" where
  \<comment> \<open>\<^verbatim>\<open>outline["outline"]\<close>\<close>
  "outline_of d = (case d ''outline'' of Some (Headings hs) \<Rightarrow> hs | _ \<Rightarrow> [])"

definition title_of :: "document \<Rightarrow> string" where
  \<comment> \<open>\<^verbatim>\<open>outline["title"]\<close>\<close>
  "title_of d = (case d ''title'' of Some (Str t) \<Rightarrow> t | _ \<Rightarrow> [])"

section \<open>Sample inputs\<close>

definition no_backend :: backends where
  \<comment> \<open>a path that neither backend can open\<close>
  "no_backend = \<lparr>pdfplumber_open = (\<lambda>p. Inl (Exception ''not a PDF'')),
                 PdfReader = (\<lambda>p. Inl (Exception ''EOF marker not found''))\<rparr>"

fun join_lines :: "string list \<Rightarrow> string" where
  \<comment> \<open>the lines of a sample text, a line feed between them\<close>
  "join_lines [] = []"
| "join_lines [l] = l"
| "join_lines (l # ls) = l @ CHR 0x0A # join_lines ls"

definition page_a :: rich_page where
  "page_a = \<lparr>extract_text = Inr (join_lines [''Report X'', ''1. Introduction'',
                 ''plain words here'', ''1.1 Background'']),
              chars = Inr [[''size'' \<mapsto> 18], [''size'' \<mapsto> 12], Map.empty, [''size'' \<mapsto> 18]]\<rparr>"

definition page_b :: rich_page where
  \<comment> \<open>a page whose glyphs cannot be read\<close>
  "page_b = \<lparr>extract_text = Inr (join_lines [''2. Methods'', ''RESULTS AND DISCUSSION'',
                 ''Experimental Results'']),
              chars = Inl (Exception ''glyph stream'')\<rparr>"

definition page_c :: rich_page where
  "page_c = \<lparr>extract_text = Inr (join_lines [''  Conclusion And Future Work  '', ''12'']),
              chars = Inr []\<rparr>"

definition page_x :: rich_page where
  \<comment> \<open>a page whose text cannot be read\<close>
  "page_x = \<lparr>extract_text = Inl (Exception ''page tree''), chars = Inr []\<rparr>"

definition rich_backend :: backends where
  "rich_backend = \<lparr>pdfplumber_open = (\<lambda>p. Inr [page_a, page_b, page_c]),
                   PdfReader = (\<lambda>p. Inl (Exception ''EOF marker not found''))\<rparr>"

definition broken_page_backend :: backends where
  "broken_page_backend = \<lparr>pdfplumber_open = (\<lambda>p. Inr [page_a, page_x, page_c]),
                          PdfReader = (\<lambda>p. Inl (Exception ''EOF marker not found''))\<rparr>"

definition plain_pdf_sample :: plain_pdf where
  "plain_pdf_sample =
     \<lparr>metadata = Some [''/Title'' \<mapsto> ''Report X''],
      pages = [Inr (join_lines [''Scanned Line'', ''1. Introduction'']),
               Inr [],
               Inr (join_lines [''SUMMARY OF RESULTS'', ''2.1 Data''])]\<rparr>"

definition plain_backend :: backends where
  "plain_backend = \<lparr>pdfplumber_open = (\<lambda>p. Inl (Exception ''not a PDF'')),
                    PdfReader = (\<lambda>p. Inr plain_pdf_sample)\<rparr>"



definition untitled_pdf :: plain_pdf where
  \<comment> \<open>a document without information dictionary\<close>
  "untitled_pdf = \<lparr>metadata = None,
                   pages = [Inr (join_lines [''12'', ''2020'', ''Annual Report 2020''])]\<rparr>"

definition untitled_backend :: backends where
  "untitled_backend = \<lparr>pdfplumber_open = (\<lambda>p. Inl (Exception ''not a PDF'')),
                       PdfReader = (\<lambda>p. Inr untitled_pdf)\<rparr>"

definition sample_outline :: "heading list" where
  \<comment> \<open>what the batch script finds in the three pages of \<open>rich_backend\<close>\<close>
  "sample_outline =
     [\<lparr>hlevel = H2, htext = ''Report X'', hpage = 1\<rparr>,
      \<lparr>hlevel = H1, htext = ''1. Introduction'', hpage = 1\<rparr>,
      \<lparr>hlevel = H2, htext = ''1.1 Background'', hpage = 1\<rparr>,
      \<lparr>hlevel = H1, htext = ''2. Methods'', hpage = 2\<rparr>,
      \<lparr>hlevel = H1, htext = ''RESULTS AND DISCUSSION'', hpage = 2\<rparr>,
      \<lparr>hlevel = H1, htext = ''Conclusion And Future Work'', hpage = 3\<rparr>]"

definition plain_sample_outline :: "heading list" where
  \<comment> \<open>what both copies find in the three pages of \<open>plain_backend\<close>\<close>
  "plain_sample_outline =
     [\<lparr>hlevel = H1, htext = ''1. Introduction'', hpage = 1\<rparr>,
      \<lparr>hlevel = H1, htext = ''SUMMARY OF RESULTS'', hpage = 3\<rparr>,
      \<lparr>hlevel = H2, htext = ''2.1 Data'', hpage = 3\<rparr>]"

section \<open>Facts about characters and patterns\<close>




lemma re_match_Plus: "re_match (Plus P) s \<longleftrightarrow> (\<exists>c cs. s = c # cs \<and> P c)"
  by (cases s) (simp_all add: re_match_def)


lemma re_match_Alt: "re_match (Alt a b) s \<longleftrightarrow> re_match a s \<or> re_match b s"
  by (simp add: re_match_def)







subsection \<open>The numbered-section patterns\<close>























section \<open>Properties of the top-level operation\<close>

lemma mk_outline_keys:
  "mk_outline t hs ''title'' = Some (Str t)"
  "mk_outline t hs ''outline'' = Some (Headings hs)"
  "mk_outline t hs ''error'' = None"
  by (simp_all add: mk_outline_def)

lemma mk_outline_dom: "dom (mk_outline t hs) = {''title'', ''outline''}"
  by (auto simp: mk_outline_def)

lemma error_document_eq:
  "[''title'' \<mapsto> Str ''Error extracting title'', ''outline'' \<mapsto> Headings []]
     = mk_outline ''Error extracting title'' []"
  by (simp add: mk_outline_def)



lemma pages_loop_total:
  "pages_loop (\<lambda>p n. Inr (f p n)) n ps out \<noteq> Inl e"
  by (induction ps arbitrary: n out) simp_all




text \<open>
  Claim C2, as stated: when both backends fail, the document has an \<^verbatim>\<open>error\<close> field with a
  non-empty message. It has none: on a path that neither backend opens, the document is
  \<^verbatim>\<open>{"title": "Error extracting title", "outline": []}\<close>, without the key \<^verbatim>\<open>error\<close>.
\<close>

theorem total_failure_error_field_counterexample:
  "isl (pdfplumber_open no_backend ''a.pdf'') \<and> isl (PdfReader no_backend ''a.pdf'')
   \<and> extract_pdf_outline no_backend ''a.pdf'' = Inr (mk_outline ''Error extracting title'' [])
   \<and> extract_pdf_outline_views no_backend ''a.pdf''
       = Inr (mk_outline ''Error extracting title'' [])
   \<and> mk_outline ''Error extracting title'' [] ''error'' = None"
  by (simp add: extract_pdf_outline_def extract_pdf_outline_try_def extract_with_pypdf2_def
        extract_with_pypdf2_try_def extract_pdf_outline_views_def extract_pdf_outline_try_views_def
        extract_with_pypdf2_views_def extract_with_pypdf2_try_views_def no_backend_def
        error_document_eq mk_outline_keys)

text \<open>
  Claim C2, amended. When the rich attempt and the plain attempt both raise, the document
  returned is exactly \<^verbatim>\<open>{"title": "Error extracting title", "outline": []}\<close>: its keys are
  \<^verbatim>\<open>title\<close> and \<^verbatim>\<open>outline\<close> and no others, so it carries no \<^verbatim>\<open>error\<close> field. The same holds
  for the copy in the web view.
\<close>

theorem total_failure_document:
  "(isl (extract_pdf_outline_try B pdf_path) \<and> isl (extract_with_pypdf2_try B pdf_path)
      \<longrightarrow> (\<exists>d. extract_pdf_outline B pdf_path = Inr d
             \<and> d = [''title'' \<mapsto> Str ''Error extracting title'', ''outline'' \<mapsto> Headings []]
             \<and> dom d = {''title'', ''outline''} \<and> d ''error'' = None))
   \<and> (isl (extract_pdf_outline_try_views B pdf_path)
        \<and> isl (extract_with_pypdf2_try_views B pdf_path)
      \<longrightarrow> (\<exists>d. extract_pdf_outline_views B pdf_path = Inr d
             \<and> d = [''title'' \<mapsto> Str ''Error extracting title'', ''outline'' \<mapsto> Headings []]
             \<and> dom d = {''title'', ''outline''} \<and> d ''error'' = None))"
  by (simp add: extract_pdf_outline_def extract_with_pypdf2_def extract_pdf_outline_views_def
        extract_with_pypdf2_views_def error_document_eq mk_outline_keys mk_outline_dom
        split: sum.splits)

theorem total_failure_document_witness:
  "isl (extract_pdf_outline_try no_backend ''a.pdf'')
   \<and> isl (extract_with_pypdf2_try no_backend ''a.pdf'')
   \<and> isl (extract_pdf_outline_try_views no_backend ''a.pdf'')
   \<and> isl (extract_with_pypdf2_try_views no_backend ''a.pdf'')
   \<and> extract_pdf_outline no_backend ''a.pdf''
       = Inr [''title'' \<mapsto> Str ''Error extracting title'', ''outline'' \<mapsto> Headings []]
   \<and> extract_pdf_outline_views no_backend ''a.pdf''
       = Inr [''title'' \<mapsto> Str ''Error extracting title'', ''outline'' \<mapsto> Headings []]"
proof -
  have a: "isl (extract_pdf_outline_try no_backend ''a.pdf'')"
    by (simp add: extract_pdf_outline_try_def no_backend_def)
  have b: "isl (extract_with_pypdf2_try no_backend ''a.pdf'')"
    by (simp add: extract_with_pypdf2_try_def no_backend_def)
  have c: "isl (extract_pdf_outline_try_views no_backend ''a.pdf'')"
    by (simp add: extract_pdf_outline_try_views_def no_backend_def)
  have d: "isl (extract_with_pypdf2_try_views no_backend ''a.pdf'')"
    by (simp add: extract_with_pypdf2_try_views_def no_backend_def)
  from a b c d total_failure_document [of no_backend "''a.pdf''"]
  show ?thesis by blast
qed

section \<open>Properties of the classifier\<close>

lemma detect_any_sizes: "detect_heading_level line s1 = detect_heading_level line s2"
  by (simp add: detect_heading_level_def)

lemma detect_views_any_sizes:
  "detect_heading_level_views line c1 s1 = detect_heading_level_views line c2 s2"
  by (simp add: detect_heading_level_views_def)

text \<open>
  Claim C7. The list of font sizes has no effect on the classification: for every line,
  \<^verbatim>\<open>detect_heading_level\<close> returns the same level for any two size lists (descending or not),
  and the headings of a page are the same for any two glyph lists the page may answer
  with. The same holds for the copy in the web view, which also receives the glyphs.
\<close>

theorem detect_heading_level_ignores_sizes:
  "detect_heading_level line s1 = detect_heading_level line s2
   \<and> detect_heading_level_views line c1 s1 = detect_heading_level_views line c2 s2
   \<and> extract_headings_from_page (p\<lparr>chars := Inr c1\<rparr>) n
       = extract_headings_from_page (p\<lparr>chars := Inr c2\<rparr>) n
   \<and> extract_headings_from_page_views (p\<lparr>chars := Inr c1\<rparr>) n
       = extract_headings_from_page_views (p\<lparr>chars := Inr c2\<rparr>) n"
proof -
  have a: "(\<lambda>line. detect_heading_level line s) = (\<lambda>line. detect_heading_level line [])" for s
    by (rule ext) (rule detect_any_sizes)
  have b: "(\<lambda>line. detect_heading_level_views line c s)
             = (\<lambda>line. detect_heading_level_views line [] [])" for c s
    by (rule ext) (rule detect_views_any_sizes)
  have c: "extract_headings_from_page (p\<lparr>chars := Inr c\<rparr>) n
             = extract_headings_from_page (p\<lparr>chars := Inr []\<rparr>) n" for c
    by (simp add: extract_headings_from_page_def extract_headings_fallback_def
          a [of "sorted_desc (font_sizes_loop c [])"] a [of "sorted_desc []"] split: sum.splits)
  have d: "extract_headings_from_page_views (p\<lparr>chars := Inr c\<rparr>) n
             = extract_headings_from_page_views (p\<lparr>chars := Inr []\<rparr>) n" for c
    by (simp add: extract_headings_from_page_views_def extract_headings_fallback_views_def
          b [of c "sorted_desc (font_sizes_loop c [])"] b [of "[]" "sorted_desc []"]
          split: sum.splits)
  show ?thesis
    using c [of c1] c [of c2] d [of c1] d [of c2] detect_any_sizes [of line s1 s2]
      detect_views_any_sizes [of line c1 s1 c2 s2]
    by simp
qed





text \<open>
  The copy in the web view ends its three patterns at the white space: there a numbered
  line needs no capital letter.
\<close>

lemma numbered_without_capital_views:
  "detect_heading_level_views ''1. introduction'' [] [] = Some H1
   \<and> detect_heading_level ''1. introduction'' [] = None"
  by code_simp

section \<open>The title-case rule\<close>









text \<open>
  The copy in the web view knows title case from length 10 on and gives it H2 whatever
  words it holds.
\<close>

lemma title_case_views:
  "detect_heading_level_views ''Conclusion And Future Work'' [] [] = Some H2"
  by code_simp

section \<open>The all-caps rule\<close>










text \<open>
  Two more lines that the all-caps rule leaves out. An upper-case line of 101 characters
  that begins like a Roman numeral section is H1 all the same, by the later rule. In the
  web view the rule has no upper bound: 101 capital letters are H1 there, and have no
  level in the batch script.
\<close>

lemma all_caps_long_roman:
  "isupper (''I. '' @ replicate 98 CHR ''A'')
   \<and> length (''I. '' @ replicate 98 CHR ''A'') = 101
   \<and> \<not> re_match rx_num1 (''I. '' @ replicate 98 CHR ''A'')
   \<and> \<not> re_match rx_num2 (''I. '' @ replicate 98 CHR ''A'')
   \<and> \<not> re_match rx_num3 (''I. '' @ replicate 98 CHR ''A'')
   \<and> \<not> re_match rx_chapter (''I. '' @ replicate 98 CHR ''A'')
   \<and> detect_heading_level (''I. '' @ replicate 98 CHR ''A'') [] = Some H1"
  by code_simp

lemma all_caps_long_views:
  "detect_heading_level_views (replicate 101 CHR ''A'') [] [] = Some H1
   \<and> detect_heading_level (replicate 101 CHR ''A'') [] = None"
  by code_simp

section \<open>Facts about the loops\<close>

lemma dropWhile_idem_hd: "xs = [] \<or> \<not> P (hd xs) \<Longrightarrow> dropWhile P xs = xs"
  by (cases xs) auto

lemma strip_ends:
  "strip s \<noteq> [] \<Longrightarrow> \<not> is_space (hd (strip s)) \<and> \<not> is_space (last (strip s))"
proof -
  assume a: "strip s \<noteq> []"
  define u where "u = dropWhile is_space s"
  define v where "v = dropWhile is_space (rev u)"
  have s: "strip s = rev v" by (simp add: strip_def u_def v_def)
  with a have v: "v \<noteq> []" by simp
  then have hv: "\<not> is_space (hd v)" unfolding v_def using hd_dropWhile by blast
  from v have un: "u \<noteq> []" unfolding v_def by auto
  then have hu: "\<not> is_space (hd u)" unfolding u_def using hd_dropWhile by blast
  obtain w where w: "rev u = w @ v" unfolding v_def
    using takeWhile_dropWhile_id [of is_space "rev u"] by metis
  then have "u = rev v @ rev w" by (metis rev_append rev_rev_ident)
  with v have "hd u = hd (rev v)" by simp
  with hu hv v show ?thesis unfolding s by (simp add: last_rev)
qed

lemma strip_strip: "strip (strip s) = strip s"
proof (cases "strip s = []")
  case True
  have "strip [] = []" by (simp add: strip_def)
  with True show ?thesis by simp
next
  case False
  from strip_ends [OF False] have h: "\<not> is_space (hd (strip s))" and l: "\<not> is_space (last (strip s))"
    by simp_all
  have 1: "dropWhile is_space (strip s) = strip s"
    using h by (simp add: dropWhile_idem_hd)
  have "hd (rev (strip s)) = last (strip s)" using False by (simp add: hd_rev)
  then have 2: "dropWhile is_space (rev (strip s)) = rev (strip s)"
    using l by (simp add: dropWhile_idem_hd)
  show ?thesis
    unfolding strip_def [of "strip s"] 1 2 by simp
qed

lemma scan_lines_append:
  "scan_lines skip cl n ls hs = hs @ scan_lines skip cl n ls []"
proof (induction ls arbitrary: hs)
  case Nil
  show ?case by simp
next
  case (Cons l ls)
  show ?case
  proof (cases "skip (strip l)")
    case True
    then show ?thesis using Cons.IH [of hs] by (simp add: Let_def)
  next
    case False
    show ?thesis
    proof (cases "cl (strip l)")
      case None
      with False show ?thesis using Cons.IH [of hs] by (simp add: Let_def)
    next
      case (Some lv)
      with False show ?thesis
        using Cons.IH [of "hs @ [\<lparr>hlevel = lv, htext = strip l, hpage = n\<rparr>]"]
          Cons.IH [of "[\<lparr>hlevel = lv, htext = strip l, hpage = n\<rparr>]"]
        by (simp add: Let_def)
    qed
  qed
qed

lemma scan_lines_Cons:
  "scan_lines skip cl n (l # ls) [] =
     (if skip (strip l) then []
      else case cl (strip l) of None \<Rightarrow> []
           | Some lv \<Rightarrow> [\<lparr>hlevel = lv, htext = strip l, hpage = n\<rparr>])
     @ scan_lines skip cl n ls []"
  using scan_lines_append [of skip cl n ls "[\<lparr>hlevel = the (cl (strip l)), htext = strip l, hpage = n\<rparr>]"]
  by (auto simp: Let_def split: option.splits)

lemma scan_lines_props:
  "h \<in> set (scan_lines skip cl n ls []) \<Longrightarrow>
     hpage h = n \<and> \<not> skip (htext h) \<and> strip (htext h) = htext h
     \<and> cl (htext h) = Some (hlevel h)"
proof (induction ls)
  case Nil
  then show ?case by simp
next
  case (Cons l ls)
  from Cons.prems have
    "h \<in> set (if skip (strip l) then []
      else case cl (strip l) of None \<Rightarrow> []
           | Some lv \<Rightarrow> [\<lparr>hlevel = lv, htext = strip l, hpage = n\<rparr>])
     \<or> h \<in> set (scan_lines skip cl n ls [])"
    unfolding scan_lines_Cons by simp
  then show ?case
  proof
    assume "h \<in> set (if skip (strip l) then []
      else case cl (strip l) of None \<Rightarrow> []
           | Some lv \<Rightarrow> [\<lparr>hlevel = lv, htext = strip l, hpage = n\<rparr>])"
    then show ?thesis by (auto simp: strip_strip split: if_splits option.splits)
  next
    assume "h \<in> set (scan_lines skip cl n ls [])"
    then show ?thesis by (rule Cons.IH)
  qed
qed

lemma scan_lines_subseq:
  "subseq (map htext (scan_lines skip cl n ls [])) (map strip ls)"
proof (induction ls)
  case Nil
  show ?case by simp
next
  case (Cons l ls)
  show ?case unfolding scan_lines_Cons using Cons.IH
    by (auto split: option.splits)
qed



lemma pages_loop_concat:
  "pages_loop f n ps out = Inr res \<Longrightarrow>
     res = out @ concat (map (\<lambda>i. projr (f (ps ! i) (n + int i))) [0..<length ps])"
proof (induction ps arbitrary: n out res)
  case Nil
  then show ?case by simp
next
  case (Cons p ps)
  from Cons.prems obtain hs where hs: "f p n = Inr hs" by (cases "f p n") auto
  with Cons.prems have "pages_loop f (n + 1) ps (out @ hs) = Inr res" by simp
  from Cons.IH [OF this]
  have r: "res = (out @ hs) @ concat (map (\<lambda>i. projr (f (ps ! i) (n + 1 + int i))) [0..<length ps])" .
  define G where "G = (\<lambda>i. projr (f ((p # ps) ! i) (n + int i)))"
  define H where "H = (\<lambda>i. projr (f (ps ! i) (n + 1 + int i)))"
  have u: "[0..<length (p # ps)] = 0 # map Suc [0..<length ps]"
    by (simp add: upt_conv_Cons map_Suc_upt del: upt_Suc)
  have g0: "G 0 = hs" using hs by (simp add: G_def)
  have gs: "G (Suc i) = H i" for i
    unfolding G_def H_def by (simp add: add.assoc)
  have gH: "G \<circ> Suc = H" by (rule ext) (simp add: gs)
  have "concat (map G (0 # map Suc [0..<length ps])) = hs @ concat (map H [0..<length ps])"
    by (simp add: g0 gH)
  then have "concat (map G [0..<length (p # ps)]) = hs @ concat (map H [0..<length ps])"
    unfolding u .
  then show ?case unfolding r G_def H_def by simp
qed

lemma pages_loop_all:
  assumes "\<And>p k hs. f p k = Inr hs \<Longrightarrow> \<forall>h\<in>set hs. Q h"
    and "\<forall>h\<in>set out. Q h"
    and "pages_loop f n ps out = Inr res"
  shows "\<forall>h\<in>set res. Q h"
  using assms(2,3)
proof (induction ps arbitrary: n out)
  case Nil
  then show ?case by simp
next
  case (Cons p ps)
  from Cons.prems(2) obtain hs where hs: "f p n = Inr hs" by (cases "f p n") auto
  with Cons.prems(2) have l: "pages_loop f (n + 1) ps (out @ hs) = Inr res" by simp
  have "\<forall>h\<in>set (out @ hs). Q h" using Cons.prems(1) assms(1) [OF hs] by auto
  from Cons.IH [OF this l] show ?case .
qed

lemma pages_loop_sorted:
  assumes "\<And>p k hs. f p k = Inr hs \<Longrightarrow> \<forall>h\<in>set hs. hpage h = k"
    and "sorted (map hpage out)" and "\<forall>h\<in>set out. 1 \<le> hpage h \<and> hpage h < n" and "1 \<le> n"
    and "pages_loop f n ps out = Inr res"
  shows "sorted (map hpage res) \<and> (\<forall>h\<in>set res. 1 \<le> hpage h)"
  using assms(2-5)
proof (induction ps arbitrary: n out)
  case Nil
  then show ?case by auto
next
  case (Cons p ps)
  from Cons.prems(4) obtain hs where hs: "f p n = Inr hs" by (cases "f p n") auto
  with Cons.prems(4) have l: "pages_loop f (n + 1) ps (out @ hs) = Inr res" by simp
  have e: "\<forall>h\<in>set hs. hpage h = n" by (rule assms(1) [OF hs])
  then have "sorted (map hpage hs)" by (induction hs) auto
  with Cons.prems(1,2) e have 1: "sorted (map hpage (out @ hs))"
    by (auto simp: sorted_append)
  have 2: "\<forall>h\<in>set (out @ hs). 1 \<le> hpage h \<and> hpage h < n + 1"
    using Cons.prems(2,3) e by auto
  have 3: "1 \<le> n + 1" using Cons.prems(3) by simp
  from Cons.IH [OF 1 2 3 l] show ?case .
qed

section \<open>Facts about the outline\<close>

lemma outline_of_mk_outline: "outline_of (mk_outline t hs) = hs"
  by (simp add: outline_of_def mk_outline_def)


lemma scan_short_props:
  assumes "h \<in> set (scan_lines short_line cl n ls [])"
  shows "hpage h = n \<and> htext h \<noteq> [] \<and> strip (htext h) = htext h"
  using scan_lines_props [OF assms] by (auto simp: short_line_def)

lemma scan_empty_props:
  assumes "h \<in> set (scan_lines empty_line cl n ls [])"
  shows "hpage h = n \<and> htext h \<noteq> [] \<and> strip (htext h) = htext h"
  using scan_lines_props [OF assms] by (auto simp: empty_line_def)

lemma fallback_props:
  "h \<in> set (extract_headings_fallback p n) \<Longrightarrow>
     hpage h = n \<and> htext h \<noteq> [] \<and> strip (htext h) = htext h"
  by (auto simp: extract_headings_fallback_def dest: scan_short_props split: sum.splits if_splits)

lemma from_page_props:
  "h \<in> set (extract_headings_from_page p n) \<Longrightarrow>
     hpage h = n \<and> htext h \<noteq> [] \<and> strip (htext h) = htext h"
  by (auto simp: extract_headings_from_page_def Let_def dest: scan_short_props fallback_props
        split: sum.splits if_splits)

lemma plain_page_props:
  "plain_page_headings pg n = Inr hs \<Longrightarrow>
     \<forall>h\<in>set hs. hpage h = n \<and> htext h \<noteq> [] \<and> strip (htext h) = htext h"
  by (auto simp: plain_page_headings_def extract_headings_from_text_def dest: scan_short_props
        split: sum.splits if_splits)

lemma fallback_views_props:
  "extract_headings_fallback_views p n = Inr hs \<Longrightarrow>
     \<forall>h\<in>set hs. hpage h = n \<and> htext h \<noteq> [] \<and> strip (htext h) = htext h"
  by (auto simp: extract_headings_fallback_views_def dest: scan_empty_props
        split: sum.splits if_splits)

lemma from_page_views_props:
  "extract_headings_from_page_views p n = Inr hs \<Longrightarrow>
     \<forall>h\<in>set hs. hpage h = n \<and> htext h \<noteq> [] \<and> strip (htext h) = htext h"
  by (auto simp: extract_headings_from_page_views_def Let_def
        dest: scan_empty_props fallback_views_props [THEN bspec] split: sum.splits if_splits)

lemma plain_page_views_props:
  "plain_page_headings_views pg n = Inr hs \<Longrightarrow>
     \<forall>h\<in>set hs. hpage h = n \<and> htext h \<noteq> [] \<and> strip (htext h) = htext h"
  by (auto simp: plain_page_headings_views_def extract_headings_from_text_views_def
        dest: scan_empty_props split: sum.splits if_splits)

lemma pages_loop_good:
  assumes f: "\<And>p k hs. f p k = Inr hs \<Longrightarrow>
                \<forall>h\<in>set hs. hpage h = k \<and> htext h \<noteq> [] \<and> strip (htext h) = htext h"
    and l: "pages_loop f 1 ps [] = Inr out"
  shows "sorted (map hpage out) \<and> (\<forall>h\<in>set out. 1 \<le> hpage h)
         \<and> (\<forall>h\<in>set out. htext h \<noteq> [] \<and> strip (htext h) = htext h)"
proof -
  have 1: "\<And>p k hs. f p k = Inr hs \<Longrightarrow> \<forall>h\<in>set hs. hpage h = k" using f by blast
  have 2: "\<And>p k hs. f p k = Inr hs \<Longrightarrow> \<forall>h\<in>set hs. htext h \<noteq> [] \<and> strip (htext h) = htext h"
    using f by blast
  have a: "sorted (map hpage out) \<and> (\<forall>h\<in>set out. 1 \<le> hpage h)"
    by (rule pages_loop_sorted [of f "[]" 1 ps out, OF 1 _ _ _ l]) simp_all
  have b: "\<forall>h\<in>set out. htext h \<noteq> [] \<and> strip (htext h) = htext h"
    by (rule pages_loop_all [of f _ "[]" 1 ps out, OF 2 _ l]) simp_all
  from a b show ?thesis by blast
qed

lemma extract_pdf_outline_cases:
  assumes "extract_pdf_outline B pdf_path = Inr d"
  shows "(\<exists>ps out. pdfplumber_open B pdf_path = Inr ps
            \<and> pages_loop (\<lambda>p n. Inr (extract_headings_from_page p n)) 1 ps [] = Inr out
            \<and> d = mk_outline (case ps of [] \<Rightarrow> [] | p # _ \<Rightarrow> extract_title_from_page p) out)
       \<or> (\<exists>rd t out. isl (pdfplumber_open B pdf_path) \<and> PdfReader B pdf_path = Inr rd
            \<and> plain_title rd = Inr t
            \<and> pages_loop plain_page_headings 1 (pages rd) [] = Inr out
            \<and> d = mk_outline t out)
       \<or> (isl (pdfplumber_open B pdf_path) \<and> isl (extract_with_pypdf2_try B pdf_path)
            \<and> d = mk_outline ''Error extracting title'' [])"
  using assms
  by (auto simp: extract_pdf_outline_def extract_pdf_outline_try_def extract_with_pypdf2_def
        extract_with_pypdf2_try_def error_document_eq Let_def pages_loop_total
        split: sum.splits)

lemma extract_pdf_outline_views_cases:
  assumes "extract_pdf_outline_views B pdf_path = Inr d"
  shows "(\<exists>ps t out. pdfplumber_open B pdf_path = Inr ps
            \<and> pages_loop extract_headings_from_page_views 1 ps [] = Inr out
            \<and> d = mk_outline t out)
       \<or> (\<exists>rd t out. PdfReader B pdf_path = Inr rd
            \<and> plain_title_views rd = Inr t
            \<and> pages_loop plain_page_headings_views 1 (pages rd) [] = Inr out
            \<and> d = mk_outline t out)
       \<or> d = mk_outline ''Error extracting title'' []"
  using assms
  by (auto simp: extract_pdf_outline_views_def extract_pdf_outline_try_views_def
        extract_with_pypdf2_views_def extract_with_pypdf2_try_views_def error_document_eq
        split: sum.splits)

lemma outline_good:
  assumes "extract_pdf_outline B pdf_path = Inr d"
  shows "sorted (map hpage (outline_of d)) \<and> (\<forall>h\<in>set (outline_of d). 1 \<le> hpage h)
         \<and> (\<forall>h\<in>set (outline_of d). htext h \<noteq> [] \<and> strip (htext h) = htext h)"
  using extract_pdf_outline_cases [OF assms]
proof (elim disjE exE conjE, goal_cases)
  case (1 ps out)
  have "sorted (map hpage out) \<and> (\<forall>h\<in>set out. 1 \<le> hpage h)
       \<and> (\<forall>h\<in>set out. htext h \<noteq> [] \<and> strip (htext h) = htext h)"
    by (rule pages_loop_good [OF _ 1(2)]) (auto dest: from_page_props)
  then show ?case unfolding 1(3) outline_of_mk_outline .
next
  case (2 rd t out)
  have "sorted (map hpage out) \<and> (\<forall>h\<in>set out. 1 \<le> hpage h)
       \<and> (\<forall>h\<in>set out. htext h \<noteq> [] \<and> strip (htext h) = htext h)"
    by (rule pages_loop_good [OF _ 2(4)]) (rule plain_page_props)
  then show ?case unfolding 2(5) outline_of_mk_outline .
next
  case 3
  then show ?case by (simp add: outline_of_mk_outline)
qed

lemma outline_views_good:
  assumes "extract_pdf_outline_views B pdf_path = Inr d"
  shows "sorted (map hpage (outline_of d)) \<and> (\<forall>h\<in>set (outline_of d). 1 \<le> hpage h)
         \<and> (\<forall>h\<in>set (outline_of d). htext h \<noteq> [] \<and> strip (htext h) = htext h)"
  using extract_pdf_outline_views_cases [OF assms]
proof (elim disjE exE conjE, goal_cases)
  case (1 ps t out)
  have "sorted (map hpage out) \<and> (\<forall>h\<in>set out. 1 \<le> hpage h)
       \<and> (\<forall>h\<in>set out. htext h \<noteq> [] \<and> strip (htext h) = htext h)"
    by (rule pages_loop_good [OF _ 1(2)]) (rule from_page_views_props)
  then show ?case unfolding 1(3) outline_of_mk_outline .
next
  case (2 rd t out)
  have "sorted (map hpage out) \<and> (\<forall>h\<in>set out. 1 \<le> hpage h)
       \<and> (\<forall>h\<in>set out. htext h \<noteq> [] \<and> strip (htext h) = htext h)"
    by (rule pages_loop_good [OF _ 2(3)]) (rule plain_page_views_props)
  then show ?case unfolding 2(4) outline_of_mk_outline .
next
  case 3
  then show ?case by (simp add: outline_of_mk_outline)
qed

section \<open>Properties of the outline\<close>

lemma rich_sample:
  "extract_pdf_outline rich_backend ''a.pdf'' = Inr (mk_outline ''Report X'' sample_outline)"
proof -
  have t: "extract_title_from_page page_a = ''Report X''" by code_simp
  have l: "pages_loop (\<lambda>p n. Inr (extract_headings_from_page p n)) 1 [page_a, page_b, page_c] []
           = Inr sample_outline"
    by code_simp
  show ?thesis
    by (simp add: extract_pdf_outline_def extract_pdf_outline_try_def rich_backend_def t l del: pages_loop.simps)
qed

lemma plain_sample:
  "extract_pdf_outline plain_backend ''a.pdf'' = Inr (mk_outline ''Report X'' plain_sample_outline)"
proof -
  have t: "plain_title plain_pdf_sample = Inr ''Report X''"
    by (simp add: plain_title_def plain_pdf_sample_def)
  have l: "pages_loop plain_page_headings 1 (pages plain_pdf_sample) [] = Inr plain_sample_outline"
    by code_simp
  show ?thesis
    by (simp add: extract_pdf_outline_def extract_pdf_outline_try_def extract_with_pypdf2_def
          extract_with_pypdf2_try_def plain_backend_def t l)
qed

lemma plain_sample_views:
  "extract_pdf_outline_views plain_backend ''a.pdf''
     = Inr (mk_outline ''Report X'' plain_sample_outline)"
proof -
  have t: "plain_title_views plain_pdf_sample = Inr ''Report X''"
    by (simp add: plain_title_views_def plain_pdf_sample_def)
  have l: "pages_loop plain_page_headings_views 1 (pages plain_pdf_sample) []
           = Inr plain_sample_outline"
    by code_simp
  show ?thesis
    by (simp add: extract_pdf_outline_views_def extract_pdf_outline_try_views_def
          extract_with_pypdf2_views_def extract_with_pypdf2_try_views_def plain_backend_def t l)
qed

text \<open>
  Claim C10. Every heading of a document, on the rich path, on a page that fell back, or
  on the plain path, has a text that is not empty and that \<^verbatim>\<open>strip()\<close> leaves as it is. The
  same holds for the copy in the web view.
\<close>

theorem heading_text_trimmed:
  "(extract_pdf_outline B pdf_path = Inr d \<and> h \<in> set (outline_of d)
      \<longrightarrow> htext h \<noteq> [] \<and> strip (htext h) = htext h)
   \<and> (extract_pdf_outline_views B pdf_path = Inr d' \<and> h' \<in> set (outline_of d')
      \<longrightarrow> htext h' \<noteq> [] \<and> strip (htext h') = htext h')"
  using outline_good [of B pdf_path d] outline_views_good [of B pdf_path d'] by blast

theorem heading_text_trimmed_witness:
  "extract_pdf_outline rich_backend ''a.pdf'' = Inr (mk_outline ''Report X'' sample_outline)
   \<and> \<lparr>hlevel = H1, htext = ''Conclusion And Future Work'', hpage = 3\<rparr>
       \<in> set (outline_of (mk_outline ''Report X'' sample_outline))
   \<and> strip ''Conclusion And Future Work'' = ''Conclusion And Future Work''
   \<and> extract_pdf_outline_views plain_backend ''a.pdf''
       = Inr (mk_outline ''Report X'' plain_sample_outline)
   \<and> \<lparr>hlevel = H2, htext = ''2.1 Data'', hpage = 3\<rparr>
       \<in> set (outline_of (mk_outline ''Report X'' plain_sample_outline))
   \<and> strip ''2.1 Data'' = ''2.1 Data''"
proof -
  have a: "\<lparr>hlevel = H1, htext = ''Conclusion And Future Work'', hpage = 3\<rparr>
       \<in> set (outline_of (mk_outline ''Report X'' sample_outline))"
    by (simp add: outline_of_mk_outline sample_outline_def)
  have b: "\<lparr>hlevel = H2, htext = ''2.1 Data'', hpage = 3\<rparr>
       \<in> set (outline_of (mk_outline ''Report X'' plain_sample_outline))"
    by (simp add: outline_of_mk_outline plain_sample_outline_def)
  from a b rich_sample plain_sample_views
    heading_text_trimmed [where B = rich_backend and pdf_path = "''a.pdf''"
      and d = "mk_outline ''Report X'' sample_outline"
      and h = "\<lparr>hlevel = H1, htext = ''Conclusion And Future Work'', hpage = 3\<rparr>"]
    heading_text_trimmed [where B = plain_backend and pdf_path = "''a.pdf''"
      and d' = "mk_outline ''Report X'' plain_sample_outline"
      and h' = "\<lparr>hlevel = H2, htext = ''2.1 Data'', hpage = 3\<rparr>"]
  show ?thesis by simp
qed

lemma fallback_subseq:
  "extract_text p = Inr txt \<Longrightarrow>
     subseq (map htext (extract_headings_fallback p n)) (map strip (split_lines txt))"
  by (simp add: extract_headings_fallback_def scan_lines_subseq)

lemma from_page_subseq:
  "extract_text p = Inr txt \<Longrightarrow>
     subseq (map htext (extract_headings_from_page p n)) (map strip (split_lines txt))"
  by (simp add: extract_headings_from_page_def Let_def scan_lines_subseq fallback_subseq
        split: sum.splits)

lemma from_text_subseq:
  "subseq (map htext (extract_headings_from_text txt n)) (map strip (split_lines txt))"
  by (simp add: extract_headings_from_text_def scan_lines_subseq)

lemma rich_outline_concat:
  assumes "extract_pdf_outline B pdf_path = Inr d" "pdfplumber_open B pdf_path = Inr ps"
  shows "outline_of d =
     concat (map (\<lambda>i. extract_headings_from_page (ps ! i) (1 + int i)) [0..<length ps])"
proof -
  from assms obtain out where
    l: "pages_loop (\<lambda>p n. Inr (extract_headings_from_page p n)) 1 ps [] = Inr out"
    and d: "outline_of d = out"
    using extract_pdf_outline_cases [OF assms(1)] by (auto simp: outline_of_mk_outline)
  from pages_loop_concat [OF l] show ?thesis unfolding d by simp
qed

lemma plain_outline_concat:
  assumes "extract_pdf_outline B pdf_path = Inr d" "isl (pdfplumber_open B pdf_path)"
    "PdfReader B pdf_path = Inr rd" "\<not> isl (extract_with_pypdf2_try B pdf_path)"
  shows "outline_of d =
     concat (map (\<lambda>i. projr (plain_page_headings (pages rd ! i) (1 + int i)))
       [0..<length (pages rd)])"
proof -
  from assms obtain out where
    l: "pages_loop plain_page_headings 1 (pages rd) [] = Inr out"
    and d: "outline_of d = out"
    using extract_pdf_outline_cases [OF assms(1)] by (auto simp: outline_of_mk_outline)
  from pages_loop_concat [OF l] show ?thesis unfolding d by simp
qed

lemma plain_try_sample:
  "extract_with_pypdf2_try plain_backend ''a.pdf''
     = Inr (mk_outline ''Report X'' plain_sample_outline)"
proof -
  have t: "plain_title plain_pdf_sample = Inr ''Report X''"
    by (simp add: plain_title_def plain_pdf_sample_def)
  have l: "pages_loop plain_page_headings 1 (pages plain_pdf_sample) [] = Inr plain_sample_outline"
    by code_simp
  show ?thesis
    by (simp add: extract_with_pypdf2_try_def plain_backend_def t l)
qed

text \<open>
  Claim C8. In every document that extraction returns, each heading has a page number of
  at least 1 and the page numbers never decrease along the outline. The outline is in
  scan order and is not sorted afterwards: on the rich path it is the headings of page 1,
  then those of page 2, and so on, the pages counted from 1; on the plain path likewise;
  and within a page the texts of the headings follow the order of the lines of the page.
  The bound and the order of the page numbers hold for the copy in the web view too.
\<close>

theorem outline_pages_in_scan_order:
  "(extract_pdf_outline B pdf_path = Inr d
      \<longrightarrow> (\<forall>h\<in>set (outline_of d). 1 \<le> hpage h) \<and> sorted (map hpage (outline_of d)))
   \<and> (extract_pdf_outline B pdf_path = Inr d \<and> pdfplumber_open B pdf_path = Inr ps
      \<longrightarrow> outline_of d =
            concat (map (\<lambda>i. extract_headings_from_page (ps ! i) (1 + int i)) [0..<length ps]))
   \<and> (extract_pdf_outline B pdf_path = Inr d \<and> isl (pdfplumber_open B pdf_path)
        \<and> PdfReader B pdf_path = Inr rd \<and> \<not> isl (extract_with_pypdf2_try B pdf_path)
      \<longrightarrow> outline_of d =
            concat (map (\<lambda>i. projr (plain_page_headings (pages rd ! i) (1 + int i)))
              [0..<length (pages rd)]))
   \<and> (extract_text p = Inr tx
      \<longrightarrow> subseq (map htext (extract_headings_from_page p n)) (map strip (split_lines tx)))
   \<and> subseq (map htext (extract_headings_from_text tx n)) (map strip (split_lines tx))
   \<and> (extract_pdf_outline_views B pdf_path = Inr d'
      \<longrightarrow> (\<forall>h\<in>set (outline_of d'). 1 \<le> hpage h) \<and> sorted (map hpage (outline_of d')))"
  using outline_good [of B pdf_path d] outline_views_good [of B pdf_path "d'"]
    rich_outline_concat [of B pdf_path d ps] plain_outline_concat [of B pdf_path d rd]
    from_page_subseq [of p tx n] from_text_subseq [of tx n]
  by blast

theorem outline_pages_in_scan_order_witness:
  "extract_pdf_outline rich_backend ''a.pdf'' = Inr (mk_outline ''Report X'' sample_outline)
   \<and> pdfplumber_open rich_backend ''a.pdf'' = Inr [page_a, page_b, page_c]
   \<and> list_all (\<lambda>h. 1 \<le> hpage h) sample_outline
   \<and> sorted (map hpage sample_outline)
   \<and> sample_outline =
       concat (map (\<lambda>i. extract_headings_from_page ([page_a, page_b, page_c] ! i) (1 + int i))
         [0..<length [page_a, page_b, page_c]])
   \<and> extract_pdf_outline plain_backend ''a.pdf''
       = Inr (mk_outline ''Report X'' plain_sample_outline)
   \<and> isl (pdfplumber_open plain_backend ''a.pdf'')
   \<and> PdfReader plain_backend ''a.pdf'' = Inr plain_pdf_sample
   \<and> \<not> isl (extract_with_pypdf2_try plain_backend ''a.pdf'')
   \<and> plain_sample_outline =
       concat (map (\<lambda>i. projr (plain_page_headings (pages plain_pdf_sample ! i) (1 + int i)))
         [0..<length (pages plain_pdf_sample)])
   \<and> extract_text page_c = Inr (join_lines [''  Conclusion And Future Work  '', ''12''])
   \<and> subseq (map htext (extract_headings_from_page page_c 3))
        (map strip (split_lines (join_lines [''  Conclusion And Future Work  '', ''12''])))
   \<and> extract_pdf_outline_views plain_backend ''a.pdf''
       = Inr (mk_outline ''Report X'' plain_sample_outline)
   \<and> list_all (\<lambda>h. 1 \<le> hpage h) plain_sample_outline
   \<and> sorted (map hpage plain_sample_outline)"
proof -
  have a: "pdfplumber_open rich_backend ''a.pdf'' = Inr [page_a, page_b, page_c]"
    by (simp add: rich_backend_def)
  have b: "isl (pdfplumber_open plain_backend ''a.pdf'')"
    "PdfReader plain_backend ''a.pdf'' = Inr plain_pdf_sample"
    by (simp_all add: plain_backend_def)
  have c: "\<not> isl (extract_with_pypdf2_try plain_backend ''a.pdf'')"
    by (simp add: plain_try_sample)
  have e: "extract_text page_c = Inr (join_lines [''  Conclusion And Future Work  '', ''12''])"
    by (simp add: page_c_def)
  note r = outline_pages_in_scan_order [where B = rich_backend and pdf_path = "''a.pdf''"
      and d = "mk_outline ''Report X'' sample_outline" and ps = "[page_a, page_b, page_c]"
      and p = page_c and n = 3
      and tx = "join_lines [''  Conclusion And Future Work  '', ''12'']"]
  note q = outline_pages_in_scan_order [where B = plain_backend and pdf_path = "''a.pdf''"
      and d = "mk_outline ''Report X'' plain_sample_outline" and rd = plain_pdf_sample
      and d' = "mk_outline ''Report X'' plain_sample_outline"]
  from r rich_sample a e have 1:
    "list_all (\<lambda>h. 1 \<le> hpage h) sample_outline \<and> sorted (map hpage sample_outline)
     \<and> sample_outline =
       concat (map (\<lambda>i. extract_headings_from_page ([page_a, page_b, page_c] ! i) (1 + int i))
         [0..<length [page_a, page_b, page_c]])
     \<and> subseq (map htext (extract_headings_from_page page_c 3))
        (map strip (split_lines (join_lines [''  Conclusion And Future Work  '', ''12''])))"
    unfolding outline_of_mk_outline list_all_iff by blast
  from q plain_sample plain_sample_views b c have 2:
    "plain_sample_outline =
       concat (map (\<lambda>i. projr (plain_page_headings (pages plain_pdf_sample ! i) (1 + int i)))
         [0..<length (pages plain_pdf_sample)])
     \<and> list_all (\<lambda>h. 1 \<le> hpage h) plain_sample_outline
     \<and> sorted (map hpage plain_sample_outline)"
    unfolding outline_of_mk_outline list_all_iff by blast
  from 1 2 rich_sample plain_sample plain_sample_views a b c e show ?thesis by blast
qed

section \<open>A page that cannot be read\<close>









text \<open>
  In the web view the fallback of a page is not guarded. When the text of a page cannot
  be read, the exception leaves the page loop, the whole document goes to the plain
  backend and the headings of the earlier pages are lost; the batch script keeps them.
\<close>

lemma page_failure_views:
  "map_sum id outline_of (extract_pdf_outline_views broken_page_backend ''a.pdf'') = Inr []
   \<and> map_sum id outline_of (extract_pdf_outline broken_page_backend ''a.pdf'')
       = Inr [\<lparr>hlevel = H2, htext = ''Report X'', hpage = 1\<rparr>,
              \<lparr>hlevel = H1, htext = ''1. Introduction'', hpage = 1\<rparr>,
              \<lparr>hlevel = H2, htext = ''1.1 Background'', hpage = 1\<rparr>,
              \<lparr>hlevel = H1, htext = ''Conclusion And Future Work'', hpage = 3\<rparr>]"
  by code_simp

section \<open>The title\<close>
















text \<open>
  The copy in the web view has no test for digits: there a line such as "2020" is taken
  for the title.
\<close>

lemma title_numeric_views:
  "map_sum id title_of (extract_pdf_outline_views untitled_backend ''a.pdf'') = Inr ''2020''
   \<and> map_sum id title_of (extract_pdf_outline untitled_backend ''a.pdf'')
       = Inr ''Annual Report 2020''"
  by code_simp

end
